theory Spec2Isabelle
  imports Main
begin

section \<open>Python values, exceptions and small library functions\<close>

text \<open>
  Exceptions of the Python code are values. Every \<open>raise\<close> and every failing library call
  of \<open>utils.py\<close> and \<open>api.py\<close> is an \<open>Inl\<close> branch of the model.
\<close>

datatype error =
    TypeError string
  | KeyError string
  | IndexError string
  | AttributeError string
  | RuntimeError string
  | RequestException string
  | HTTPException nat string
  | OtherError string

fun string_of_nat :: "nat \<Rightarrow> string" where
  "string_of_nat n =
     (if n < 10 then [''0123456789'' ! n]
      else string_of_nat (n div 10) @ [''0123456789'' ! (n mod 10)])"

declare string_of_nat.simps [simp del]

text \<open>\<open>str(e)\<close>: the message of an exception; a KeyError prints its key quoted.\<close>

fun str_of :: "error \<Rightarrow> string" where
  "str_of (TypeError m) = m"
| "str_of (KeyError k) = CHR 0x27 # k @ [CHR 0x27]"
| "str_of (IndexError m) = m"
| "str_of (AttributeError m) = m"
| "str_of (RuntimeError m) = m"
| "str_of (RequestException m) = m"
| "str_of (HTTPException code detail) = string_of_nat code @ '': '' @ detail"
| "str_of (OtherError m) = m"

text \<open>\<open>d.get(k, default)\<close> on a dict.\<close>

definition dict_get :: "('k \<rightharpoonup> 'v) \<Rightarrow> 'k \<Rightarrow> 'v \<Rightarrow> 'v" where
  "dict_get d k dflt = (case d k of Some v \<Rightarrow> v | None \<Rightarrow> dflt)"

text \<open>\<open>d[k]\<close> on a dict: a missing key raises KeyError.\<close>

definition dict_item :: "(string \<rightharpoonup> 'v) \<Rightarrow> string \<Rightarrow> error + 'v" where
  "dict_item d k = (case d k of Some v \<Rightarrow> Inr v | None \<Rightarrow> Inl (KeyError k))"

text \<open>\<open>s.startswith(p)\<close>.\<close>

definition startswith :: "string \<Rightarrow> string \<Rightarrow> bool" where
  "startswith s p = (take (length p) s = p)"

text \<open>\<open>s.strip()\<close>: whitespace removed at both ends.\<close>

definition is_space :: "char \<Rightarrow> bool" where
  "is_space c = (c \<in> set [CHR 0x20, CHR 0x09, CHR 0x0A, CHR 0x0B, CHR 0x0C, CHR 0x0D,
                            CHR 0x1C, CHR 0x1D, CHR 0x1E, CHR 0x1F])"

definition strip :: "string \<Rightarrow> string" where
  "strip s = rev (dropWhile is_space (rev (dropWhile is_space s)))"

text \<open>\<open>sep.join(xs)\<close>.\<close>

fun join :: "string \<Rightarrow> string list \<Rightarrow> string" where
  "join sep [] = []"
| "join sep [x] = x"
| "join sep (x # y # ys) = x @ sep @ join sep (y # ys)"

text \<open>\<open>xs[:n]\<close>: a negative bound counts from the end.\<close>

definition slice_to :: "'a list \<Rightarrow> int \<Rightarrow> 'a list" where
  "slice_to xs n =
     (if 0 \<le> n then take (nat n) xs else take (length xs - nat (- n)) xs)"

section \<open>utils.py\<close>

subsection \<open>analyze\_sentiment\<close>

text \<open>
  The pretrained pipeline \<open>sentiment_analyzer\<close> is a parameter: a function from the text it
  is given to the list of result dicts it returns, or to the exception it raises.
\<close>

type_synonym classifier = "string \<Rightarrow> error + (string \<rightharpoonup> string) list"

definition label_map :: "string \<rightharpoonup> string" where
  "label_map = [''LABEL_0'' \<mapsto> ''Negative'', ''LABEL_1'' \<mapsto> ''Neutral'',
                ''LABEL_2'' \<mapsto> ''Positive'']"

definition analyze_sentiment :: "classifier \<Rightarrow> string \<Rightarrow> error + string" where
  "analyze_sentiment sentiment_analyzer text =
     (case (case sentiment_analyzer (take 512 text) of
              Inl e \<Rightarrow> Inl e
            | Inr [] \<Rightarrow> Inl (IndexError ''list index out of range'')
            | Inr (result # _) \<Rightarrow>
                (case dict_item result ''label'' of
                   Inl e \<Rightarrow> Inl e
                 | Inr l \<Rightarrow> Inr (dict_get label_map l ''Neutral''))) of
        Inl e \<Rightarrow> Inl (RuntimeError (''Sentiment analysis failed: '' @ str_of e))
      | Inr s \<Rightarrow> Inr s)"

subsection \<open>extract\_key\_topics\<close>

text \<open>
  An entity of a spaCy document: its text and its label. The model \<open>nlp\<close> is a parameter.
  \<open>list(set(entities))\<close> removes duplicates and lists the set in an order Python does not
  specify: the order is the parameter \<open>set_iter\<close>, applied to the distinct entities.
\<close>

record entity =
  ent_text :: string
  ent_label :: string

type_synonym recognizer = "string \<Rightarrow> error + entity list"

definition extract_key_topics ::
    "recognizer \<Rightarrow> (string list \<Rightarrow> string list) \<Rightarrow> string \<Rightarrow> int \<Rightarrow> error + string list" where
  "extract_key_topics nlp set_iter text max_topics =
     (case nlp text of
        Inl e \<Rightarrow> Inl e
      | Inr ents \<Rightarrow>
          (let entities = map ent_text
                 (filter (\<lambda>ent. ent_label ent \<in> set [''ORG'', ''PRODUCT'', ''GPE'', ''NORP''])
                    ents)
           in Inr (slice_to (set_iter (remdups entities)) max_topics)))"

text \<open>What is asked of an iteration order: it lists a duplicate-free list as a permutation.\<close>

definition iteration_order :: "(string list \<Rightarrow> string list) \<Rightarrow> bool" where
  "iteration_order set_iter =
     (\<forall>xs. distinct xs \<longrightarrow> distinct (set_iter xs) \<and> set (set_iter xs) = set xs)"

subsection \<open>fetch\_news\_articles\<close>

text \<open>
  An article reference is a JSON object; only string and null values are read by the
  handler. The news service is a parameter: from the URL and the query parameters to the
  decoded JSON body (its list-valued keys), or to the exception of the request.

  The parameter \<open>api_key\<close> has no default in the source. A call that does not supply it
  raises TypeError before the body runs: \<open>None\<close> stands for the argument not supplied.
\<close>

datatype jval = JNull | JStr string

type_synonym item = "string \<rightharpoonup> jval"

datatype param = PStr string | PInt int

type_synonym news_service =
  "string \<Rightarrow> (string \<times> param) list \<Rightarrow> error + (string \<rightharpoonup> item list)"

definition fetch_news_articles ::
    "news_service \<Rightarrow> string \<Rightarrow> string option \<Rightarrow> int \<Rightarrow> error + item list" where
  "fetch_news_articles requests_get_json company api_key max_results =
     (case api_key of
        None \<Rightarrow>
          Inl (TypeError
            ''fetch_news_articles() missing 1 required positional argument: api_key'')
      | Some key \<Rightarrow>
          (let news_api_url = ''https://newsapi.org/v2/everything'';
               keywords =
                 ''stock OR market OR shares OR revenue OR earnings OR merger OR acquisition'';
               params =
                 [(''q'', PStr ([CHR 0x22] @ company @ [CHR 0x22] @ '' AND ('' @ keywords @ '')'')),
                  (''language'', PStr ''en''),
                  (''pageSize'', PInt max_results),
                  (''sortBy'', PStr ''publishedAt''),
                  (''apiKey'', PStr key)]
           in case requests_get_json news_api_url params of
                Inl e \<Rightarrow> Inl e
              | Inr data \<Rightarrow> Inr (dict_get data ''articles'' [])))"

subsection \<open>scrape\_article\_content\<close>

text \<open>
  What the scraper reads of a parsed page: the text of the title element when there is
  one; for each of the two meta tags, whether it was found and its \<open>content\<close> attribute;
  the paragraph texts inside the first \<open>article\<close> element when there is one, and those
  of the whole document. The web is a parameter: from a URL to the response or to the
  exception of the request.
\<close>

record page =
  title_text :: "string option"
  meta_description :: "string option option"
  og_description :: "string option option"
  article_paragraphs :: "string list option"
  all_paragraphs :: "string list"

record response =
  status_code :: nat
  parsed :: page

type_synonym web = "string \<Rightarrow> error + response"

text \<open>\<open>tag and tag.get("content")\<close>: the attribute, when the tag is found and the
  attribute is a non-empty string.\<close>

definition attr_content :: "string option option \<Rightarrow> string option" where
  "attr_content tag =
     (case tag of
        None \<Rightarrow> None
      | Some None \<Rightarrow> None
      | Some (Some c) \<Rightarrow> (if c = [] then None else Some c))"

text \<open>\<open>response.raise_for_status()\<close>.\<close>

definition raise_for_status :: "string \<Rightarrow> response \<Rightarrow> error + unit" where
  "raise_for_status url r =
     (if 400 \<le> status_code r \<and> status_code r < 600
      then Inl (RequestException (string_of_nat (status_code r) @ '' Error for url: '' @ url))
      else Inr ())"

definition scrape_article_content :: "web \<Rightarrow> string \<Rightarrow> (string \<rightharpoonup> string)" where
  "scrape_article_content requests_get url =
     (case (case requests_get url of
              Inl e \<Rightarrow> Inl e
            | Inr r \<Rightarrow>
                (case raise_for_status url r of
                   Inl e \<Rightarrow> Inl e
                 | Inr _ \<Rightarrow>
                     (let soup = parsed r;
                          title = (case title_text soup of
                                     Some t \<Rightarrow> strip t
                                   | None \<Rightarrow> ''No title available'');
                          content0 =
                            (case attr_content (meta_description soup) of
                               Some c \<Rightarrow> strip c
                             | None \<Rightarrow>
                                 (case attr_content (og_description soup) of
                                    Some c \<Rightarrow> strip c
                                  | None \<Rightarrow> []));
                          content =
                            (if content0 = [] \<or> length content0 < 100
                             then join [CHR 0x0A]
                                    (case article_paragraphs soup of
                                       Some ps \<Rightarrow> ps
                                     | None \<Rightarrow> all_paragraphs soup)
                             else content0)
                      in Inr [''title'' \<mapsto> title,
                              ''content'' \<mapsto>
                                (if content = [] then ''No content available.'' else content)]))) of
        Inl e \<Rightarrow> [''title'' \<mapsto> ''Error'',
                  ''content'' \<mapsto> ''Error scraping article: '' @ str_of e]
      | Inr article \<Rightarrow> article)"

subsection \<open>generate\_hindi\_tts\<close>

text \<open>
  The translation service and the synthesis of the waveform into a new temporary file are
  parameters; the second returns the path of the file.
\<close>

definition generate_hindi_tts ::
    "(string \<Rightarrow> error + string) \<Rightarrow> (string \<Rightarrow> error + string) \<Rightarrow> string \<Rightarrow> error + string" where
  "generate_hindi_tts translate synthesize text =
     (case (case translate text of
              Inl e \<Rightarrow> Inl e
            | Inr translated \<Rightarrow> synthesize translated) of
        Inl e \<Rightarrow> Inl (RuntimeError (''TTS generation failed: '' @ str_of e))
      | Inr path \<Rightarrow> Inr path)"

section \<open>api.py\<close>

text \<open>
  The services the handler reaches, and the trace of what a request did: the URLs handed
  to the scraper, the messages logged, the texts handed to the narrator and the files
  scheduled for deletion, each in order.
\<close>

record services =
  requests_get_json :: news_service
  requests_get :: web
  sentiment_analyzer :: classifier
  nlp :: recognizer
  set_iter :: "string list \<Rightarrow> string list"
  translate :: "string \<Rightarrow> error + string"
  synthesize :: "string \<Rightarrow> error + string"

record trace =
  scraped :: "string list"
  logged :: "string list"
  narrated :: "string list"
  cleanup :: "string list"

record processed_article =
  title :: string
  summary :: string
  sentiment :: string
  topics :: "string list"

text \<open>
  The body of the loop for one reference (lines 29 to 45). The outcome names the branch
  taken: the two \<open>continue\<close> statements, the \<open>append\<close>, or the exception the handler of
  line 43 catches.
\<close>

datatype outcome =
    SkippedNotHttp
  | SkippedEmptyContent
  | Appended processed_article
  | Failed error

definition process_item :: "services \<Rightarrow> item \<Rightarrow> trace \<Rightarrow> outcome \<times> trace" where
  "process_item sv item tr =
     (case dict_item item ''url'' of
        Inl e \<Rightarrow> (Failed e, tr)
      | Inr JNull \<Rightarrow>
          (Failed (AttributeError ''NoneType object has no attribute startswith''), tr)
      | Inr (JStr url) \<Rightarrow>
          (if \<not> startswith url ''http'' then (SkippedNotHttp, tr)
           else
             (let tr' = tr\<lparr>scraped := scraped tr @ [url]\<rparr>;
                  article = scrape_article_content (requests_get sv) url
              in case dict_item article ''content'' of
                   Inl e \<Rightarrow> (Failed e, tr')
                 | Inr content \<Rightarrow>
                     (if content = [] then (SkippedEmptyContent, tr')
                      else
                        (case dict_item article ''title'' of
                           Inl e \<Rightarrow> (Failed e, tr')
                         | Inr t \<Rightarrow>
                         (case dict_item article ''summary'' of
                            Inl e \<Rightarrow> (Failed e, tr')
                          | Inr s \<Rightarrow>
                          (case analyze_sentiment (sentiment_analyzer sv) content of
                             Inl e \<Rightarrow> (Failed e, tr')
                           | Inr sent \<Rightarrow>
                           (case extract_key_topics (nlp sv) (set_iter sv) content 5 of
                              Inl e \<Rightarrow> (Failed e, tr')
                            | Inr tops \<Rightarrow>
                                (Appended \<lparr>title = t, summary = s, sentiment = sent,
                                           topics = tops\<rparr>, tr')))))))))"

text \<open>The loop of line 28 over the references, in fetch order.\<close>

fun process_items ::
    "services \<Rightarrow> item list \<Rightarrow> processed_article list \<times> trace
       \<Rightarrow> processed_article list \<times> trace" where
  "process_items sv [] st = st"
| "process_items sv (item # items) (processed_articles, tr) =
     (case process_item sv item tr of
        (SkippedNotHttp, tr') \<Rightarrow> process_items sv items (processed_articles, tr')
      | (SkippedEmptyContent, tr') \<Rightarrow> process_items sv items (processed_articles, tr')
      | (Appended a, tr') \<Rightarrow> process_items sv items (processed_articles @ [a], tr')
      | (Failed e, tr') \<Rightarrow>
          process_items sv items
            (processed_articles,
             tr'\<lparr>logged := logged tr' @ [''Article processing failed: '' @ str_of e]\<rparr>))"

text \<open>The JSON body of a successful response (lines 62 to 66).\<close>

datatype rval = RStr string | RArticles "processed_article list"

type_synonym json_body = "string \<rightharpoonup> rval"

definition success_body :: "string \<Rightarrow> processed_article list \<Rightarrow> string \<Rightarrow> json_body" where
  "success_body company processed_articles tts_path =
     [''company'' \<mapsto> RStr company,
      ''articles'' \<mapsto> RArticles processed_articles,
      ''tts_path'' \<mapsto> RStr tts_path]"

text \<open>
  The handler from line 26 on, given the outcome of the call of line 25: the \<open>try\<close> block
  and its handler of line 67, which catches every \<open>Exception\<close> raised in the block and
  raises the 500 response in its place.
\<close>

definition analyze_fetched ::
    "services \<Rightarrow> string \<Rightarrow> error + item list \<Rightarrow> trace \<Rightarrow> (error + json_body) \<times> trace" where
  "analyze_fetched sv company fetched tr =
     (case (case fetched of
              Inl e \<Rightarrow> (Inl e, tr)
            | Inr news_items \<Rightarrow>
                (case process_items sv news_items ([], tr) of
                   (processed_articles, tr1) \<Rightarrow>
                     (if processed_articles = []
                      then (Inl (HTTPException 404 ''No articles could be processed''), tr1)
                      else
                        (let tts_summary =
                               company @ '' analysis: ''
                                 @ string_of_nat (length processed_articles)
                                 @ '' articles processed'';
                             tr2 = tr1\<lparr>narrated := narrated tr1 @ [tts_summary]\<rparr>
                         in case generate_hindi_tts (translate sv) (synthesize sv) tts_summary of
                              Inl e \<Rightarrow> (Inl e, tr2)
                            | Inr tts_path \<Rightarrow>
                                (Inr (success_body company processed_articles tts_path),
                                 tr2\<lparr>cleanup := cleanup tr2 @ [tts_path]\<rparr>))))) of
        (Inl e, tr') \<Rightarrow>
          (Inl (HTTPException 500 ''Internal server error''),
           tr'\<lparr>logged := logged tr' @ [''Critical error: '' @ str_of e]\<rparr>)
      | (Inr body, tr') \<Rightarrow> (Inr body, tr'))"

text \<open>The endpoint: line 25 calls the fetcher with the company name alone.\<close>

definition analyze_company_news ::
    "services \<Rightarrow> string \<Rightarrow> trace \<Rightarrow> (error + json_body) \<times> trace" where
  "analyze_company_news sv company tr =
     analyze_fetched sv company
       (fetch_news_articles (requests_get_json sv) company None 10) tr"

section \<open>app.py\<close>

text \<open>
  What \<open>main\<close> reads of the decoded body of a successful response, in the order of lines
  29, 33 and 43; the result is the URL of the second GET.
\<close>

definition audio_url :: "string \<Rightarrow> json_body \<Rightarrow> error + string" where
  "audio_url api_base data =
     (case dict_item data ''company'' of
        Inl e \<Rightarrow> Inl e
      | Inr _ \<Rightarrow>
          (case dict_item data ''articles'' of
             Inl e \<Rightarrow> Inl e
           | Inr (RStr _) \<Rightarrow> Inl (TypeError ''string indices must be integers'')
           | Inr (RArticles _) \<Rightarrow>
               (case dict_item data ''tts_url'' of
                  Inl e \<Rightarrow> Inl e
                | Inr (RArticles _) \<Rightarrow> Inl (OtherError ''audio path is not a string'')
                | Inr (RStr p) \<Rightarrow> Inr (api_base @ p))))"

section \<open>Example services\<close>

definition demo_nlp :: recognizer where
  "demo_nlp text =
     Inr [\<lparr>ent_text = ''Tesla'', ent_label = ''ORG''\<rparr>,
          \<lparr>ent_text = ''Monday'', ent_label = ''DATE''\<rparr>,
          \<lparr>ent_text = ''Germany'', ent_label = ''GPE''\<rparr>,
          \<lparr>ent_text = ''Tesla'', ent_label = ''ORG''\<rparr>]"

definition demo_classifier :: classifier where
  "demo_classifier text =
     Inr [[''label'' \<mapsto> (if text = [] then ''LABEL_1'' else ''LABEL_2'')]]"

definition demo_page :: page where
  "demo_page =
     \<lparr>title_text = Some ''  Tesla shares rise  '',
      meta_description = Some (Some ''Tesla shares rose on Monday.''),
      og_description = None,
      article_paragraphs = Some [''Tesla shares rose on Monday.'', ''Germany plant opens.''],
      all_paragraphs = [''Tesla shares rose on Monday.'', ''Germany plant opens.'', ''Footer'']\<rparr>"

definition blank_page :: page where
  "blank_page =
     \<lparr>title_text = None, meta_description = None, og_description = None,
      article_paragraphs = None, all_paragraphs = []\<rparr>"

definition demo_web :: web where
  "demo_web url =
     (if url = ''https://news.example/tesla'' then Inr \<lparr>status_code = 200, parsed = demo_page\<rparr>
      else if url = ''https://news.example/blank'' then Inr \<lparr>status_code = 200, parsed = blank_page\<rparr>
      else if url = ''https://news.example/gone'' then Inr \<lparr>status_code = 404, parsed = blank_page\<rparr>
      else Inl (RequestException ''connection refused''))"

definition demo_services :: services where
  "demo_services =
     \<lparr>requests_get_json = (\<lambda>url params. Inr [''articles'' \<mapsto> []]),
      requests_get = demo_web,
      sentiment_analyzer = demo_classifier,
      nlp = demo_nlp,
      set_iter = rev,
      translate = (\<lambda>text. Inr text),
      synthesize = (\<lambda>text. Inr ''/tmp/tmpab12cd.wav'')\<rparr>"

definition empty_trace :: trace where
  "empty_trace = \<lparr>scraped = [], logged = [], narrated = [], cleanup = []\<rparr>"

definition demo_items :: "item list" where
  "demo_items =
     [[''url'' \<mapsto> JStr ''ftp://files.example/tesla'', ''title'' \<mapsto> JStr ''Mirror''],
      [''url'' \<mapsto> JStr ''https://news.example/blank'', ''title'' \<mapsto> JStr ''Blank''],
      [''url'' \<mapsto> JStr ''https://news.example/tesla'', ''title'' \<mapsto> JStr ''Tesla shares'']]"

section \<open>Properties\<close>

lemma dict_get_label_map_range:
  "dict_get label_map l ''Neutral'' \<in> {''Negative'', ''Neutral'', ''Positive''}"
  by (simp add: dict_get_def label_map_def)

lemma dict_get_label_map_unknown:
  "l \<notin> {''LABEL_0'', ''LABEL_1'', ''LABEL_2''} \<Longrightarrow> dict_get label_map l ''Neutral'' = ''Neutral''"
  by (simp add: dict_get_def label_map_def)

lemma slice_to_length: "0 \<le> n \<Longrightarrow> length (slice_to xs n) \<le> nat n"
  by (simp add: slice_to_def)

lemma slice_to_distinct: "distinct xs \<Longrightarrow> distinct (slice_to xs n)"
  by (simp add: slice_to_def)

lemma slice_to_subset: "set (slice_to xs n) \<subseteq> set xs"
  by (auto simp: slice_to_def dest: in_set_takeD)

subsection \<open>The scraper and the loop over the references\<close>

lemma scrape_article_content_shape:
  "\<exists>t c. scrape_article_content get url = [''title'' \<mapsto> t, ''content'' \<mapsto> c] \<and> c \<noteq> []"
  by (auto simp: scrape_article_content_def Let_def split: sum.splits)

lemma scrape_article_content_no_summary:
  "scrape_article_content get url ''summary'' = None"
  using scrape_article_content_shape [of get url] by auto

lemma scrape_article_content_has_content:
  "\<exists>c. scrape_article_content get url ''content'' = Some c \<and> c \<noteq> []"
  using scrape_article_content_shape [of get url] by auto

lemma scrape_article_content_has_title:
  "\<exists>t. scrape_article_content get url ''title'' = Some t"
  using scrape_article_content_shape [of get url] by auto

lemma process_item_http:
  assumes "item ''url'' = Some (JStr url)" and "startswith url ''http''"
  shows "process_item sv item tr =
           (Failed (KeyError ''summary''), tr\<lparr>scraped := scraped tr @ [url]\<rparr>)"
proof -
  obtain c where c: "scrape_article_content (requests_get sv) url ''content'' = Some c" "c \<noteq> []"
    using scrape_article_content_has_content by blast
  obtain t where t: "scrape_article_content (requests_get sv) url ''title'' = Some t"
    using scrape_article_content_has_title by blast
  show ?thesis
    using assms c t scrape_article_content_no_summary [of "requests_get sv" url]
    by (simp add: process_item_def dict_item_def Let_def)
qed

lemma process_item_cases:
  "process_item sv item tr = (SkippedNotHttp, tr)
   \<or> (\<exists>e. process_item sv item tr = (Failed e, tr))
   \<or> (\<exists>url. item ''url'' = Some (JStr url) \<and> startswith url ''http''
         \<and> process_item sv item tr =
             (Failed (KeyError ''summary''), tr\<lparr>scraped := scraped tr @ [url]\<rparr>))"
proof (cases "item ''url''")
  case None
  then show ?thesis by (simp add: process_item_def dict_item_def)
next
  case (Some v)
  show ?thesis
  proof (cases v)
    case JNull
    with Some show ?thesis by (simp add: process_item_def dict_item_def)
  next
    case (JStr url)
    show ?thesis
    proof (cases "startswith url ''http''")
      case True
      with Some JStr process_item_http [of item url sv tr] show ?thesis by simp
    next
      case False
      with Some JStr show ?thesis by (simp add: process_item_def dict_item_def)
    qed
  qed
qed

lemma process_item_never_appends: "fst (process_item sv item tr) \<noteq> Appended a"
  using process_item_cases [of sv item tr] by auto

lemma process_item_narrated: "narrated (snd (process_item sv item tr)) = narrated tr"
  using process_item_cases [of sv item tr] by auto

lemma process_item_cleanup: "cleanup (snd (process_item sv item tr)) = cleanup tr"
  using process_item_cases [of sv item tr] by auto

lemma process_item_scraped:
  "set (scraped (snd (process_item sv item tr)))
     \<subseteq> set (scraped tr) \<union> {url. item ''url'' = Some (JStr url) \<and> startswith url ''http''}"
  using process_item_cases [of sv item tr] by auto

lemma process_items_processed:
  "fst (process_items sv items (ps, tr)) = ps"
proof (induction items arbitrary: tr)
  case Nil
  show ?case by simp
next
  case (Cons item items)
  obtain out tr' where p: "process_item sv item tr = (out, tr')" by (cases "process_item sv item tr")
  with process_item_never_appends [of sv item tr] have "\<And>a. out \<noteq> Appended a" by simp
  with p Cons.IH show ?case by (cases out) auto
qed

lemma process_items_narrated:
  "narrated (snd (process_items sv items (ps, tr))) = narrated tr"
proof (induction items arbitrary: ps tr)
  case Nil
  show ?case by simp
next
  case (Cons item items)
  obtain out tr' where p: "process_item sv item tr = (out, tr')" by (cases "process_item sv item tr")
  with process_item_narrated [of sv item tr] have "narrated tr' = narrated tr" by simp
  with p Cons.IH show ?case by (cases out) simp_all
qed

lemma process_items_scraped:
  "set (scraped (snd (process_items sv items (ps, tr))))
     \<subseteq> set (scraped tr)
        \<union> {url. \<exists>item \<in> set items. item ''url'' = Some (JStr url) \<and> startswith url ''http''}"
proof (induction items arbitrary: ps tr)
  case Nil
  show ?case by simp
next
  case (Cons item items)
  obtain out tr' where p: "process_item sv item tr = (out, tr')" by (cases "process_item sv item tr")
  with process_item_scraped [of sv item tr]
  have s: "set (scraped tr')
     \<subseteq> set (scraped tr) \<union> {url. item ''url'' = Some (JStr url) \<and> startswith url ''http''}"
    by simp
  have "set (scraped (snd (process_items sv (item # items) (ps, tr))))
          \<subseteq> set (scraped tr')
        \<union> {url. \<exists>item \<in> set items. item ''url'' = Some (JStr url) \<and> startswith url ''http''}"
  proof (cases out)
    case SkippedNotHttp
    with p Cons.IH [of ps tr'] show ?thesis by simp
  next
    case SkippedEmptyContent
    with p Cons.IH [of ps tr'] show ?thesis by simp
  next
    case (Appended a)
    with p Cons.IH [of "ps @ [a]" tr'] show ?thesis by simp
  next
    case (Failed e)
    with p Cons.IH [of ps "tr'\<lparr>logged := logged tr' @ [''Article processing failed: '' @ str_of e]\<rparr>"]
    show ?thesis by simp
  qed
  with s show ?case by auto
qed

lemma analyze_fetched_500:
  "fst (analyze_fetched sv company fetched tr) = Inl (HTTPException 500 ''Internal server error'')"
proof (cases fetched)
  case (Inl e)
  then show ?thesis by (simp add: analyze_fetched_def)
next
  case (Inr news_items)
  obtain ps tr1 where r: "process_items sv news_items ([], tr) = (ps, tr1)"
    by (cases "process_items sv news_items ([], tr)")
  with process_items_processed [of sv news_items "[]" tr] have "ps = []" by simp
  with Inr r show ?thesis by (simp add: analyze_fetched_def)
qed

lemma analyze_fetched_narrated:
  "narrated (snd (analyze_fetched sv company fetched tr)) = narrated tr"
proof (cases fetched)
  case (Inl e)
  then show ?thesis by (simp add: analyze_fetched_def)
next
  case (Inr news_items)
  obtain ps tr1 where r: "process_items sv news_items ([], tr) = (ps, tr1)"
    by (cases "process_items sv news_items ([], tr)")
  with process_items_processed [of sv news_items "[]" tr] have ps: "ps = []" by simp
  from r process_items_narrated [of sv news_items "[]" tr] have "narrated tr1 = narrated tr" by simp
  with Inr r ps show ?thesis by (simp add: analyze_fetched_def)
qed

lemma scrape_demo_blank:
  "scrape_article_content demo_web ''https://news.example/blank'' =
     [''title'' \<mapsto> ''No title available'', ''content'' \<mapsto> ''No content available.'']"
  by (simp add: scrape_article_content_def demo_web_def blank_page_def raise_for_status_def
      attr_content_def)

lemma string_of_nat_404: "string_of_nat 404 = ''404''"
  by (simp add: string_of_nat.simps)

lemma scrape_demo_tesla:
  "scrape_article_content demo_web ''https://news.example/tesla'' =
     [''title'' \<mapsto> ''Tesla shares rise'',
      ''content'' \<mapsto> ''Tesla shares rose on Monday.'' @ [CHR 0x0A] @ ''Germany plant opens.'']"
  by (simp add: scrape_article_content_def demo_web_def demo_page_def raise_for_status_def
      attr_content_def strip_def is_space_def)

subsection \<open>The endpoint\<close>

text \<open>
  C1. The claim asks for a 404 answer when no article survives the loop. The handler does
  raise \<open>HTTPException(404)\<close> then, but inside the \<open>try\<close> block whose handler catches
  every \<open>Exception\<close>: the answer is the 500 of that handler. Shown here: when the fetcher
  returns no reference the answer is 500 and the log holds the 404 that was caught; and
  whatever the fetcher returns, the answer is 500 and the narrator is not called.
\<close>

theorem zero_references_answer_500:
  "analyze_fetched sv company (Inr []) tr =
     (Inl (HTTPException 500 ''Internal server error''),
      tr\<lparr>logged := logged tr @ [''Critical error: 404: No articles could be processed'']\<rparr>)
   \<and> fst (analyze_fetched sv company fetched tr) =
       Inl (HTTPException 500 ''Internal server error'')
   \<and> narrated (snd (analyze_fetched sv company fetched tr)) = narrated tr"
proof -
  have "analyze_fetched sv company (Inr []) tr =
     (Inl (HTTPException 500 ''Internal server error''),
      tr\<lparr>logged := logged tr @ [''Critical error: 404: No articles could be processed'']\<rparr>)"
    by (simp add: analyze_fetched_def string_of_nat_404)
  then show ?thesis
    using analyze_fetched_500 [of sv company fetched tr]
      analyze_fetched_narrated [of sv company fetched tr]
    by simp
qed

text \<open>
  C2. Line 25 calls \<open>fetch_news_articles\<close> with the company name alone; the parameter
  \<open>api_key\<close> has no default, so the call raises TypeError, and the endpoint answers every
  request with the 500 error: nothing is scraped, narrated or scheduled, one message is
  logged.
\<close>

theorem analyze_company_news_always_500:
  "fetch_news_articles (requests_get_json sv) company None 10 =
     Inl (TypeError ''fetch_news_articles() missing 1 required positional argument: api_key'')
   \<and> analyze_company_news sv company tr =
       (Inl (HTTPException 500 ''Internal server error''),
        tr\<lparr>logged := logged tr @
           [''Critical error: fetch_news_articles() missing 1 required positional argument: api_key'']\<rparr>)"
  by (simp add: analyze_company_news_def analyze_fetched_def fetch_news_articles_def)

text \<open>
  C3. Three references: one with an ftp URL, one whose page has no text at all, one whose
  page scrapes to a title and a content. The claim expects one processed article. The
  scraper returns the keys \<open>title\<close> and \<open>content\<close> only, so \<open>article['summary']\<close> raises
  KeyError for both scraped pages: no article is processed and the answer is 500.
\<close>

theorem three_references_none_processed:
  "scrape_article_content (requests_get demo_services) ''https://news.example/tesla'' =
     [''title'' \<mapsto> ''Tesla shares rise'',
      ''content'' \<mapsto> ''Tesla shares rose on Monday.'' @ [CHR 0x0A] @ ''Germany plant opens.'']
   \<and> scrape_article_content (requests_get demo_services) ''https://news.example/blank'' =
       [''title'' \<mapsto> ''No title available'', ''content'' \<mapsto> ''No content available.'']
   \<and> map (\<lambda>item. fst (process_item demo_services item empty_trace)) demo_items =
       [SkippedNotHttp, Failed (KeyError ''summary''), Failed (KeyError ''summary'')]
   \<and> fst (process_items demo_services demo_items ([], empty_trace)) = []
   \<and> fst (analyze_fetched demo_services ''Tesla'' (Inr demo_items) empty_trace) =
       Inl (HTTPException 500 ''Internal server error'')"
proof -
  have a: "scrape_article_content (requests_get demo_services) ''https://news.example/tesla'' =
     [''title'' \<mapsto> ''Tesla shares rise'',
      ''content'' \<mapsto> ''Tesla shares rose on Monday.'' @ [CHR 0x0A] @ ''Germany plant opens.'']"
    using scrape_demo_tesla by (simp add: demo_services_def)
  have a': "scrape_article_content (requests_get demo_services) ''https://news.example/blank'' =
       [''title'' \<mapsto> ''No title available'', ''content'' \<mapsto> ''No content available.'']"
    using scrape_demo_blank by (simp add: demo_services_def)
  have b: "map (\<lambda>item. fst (process_item demo_services item empty_trace)) demo_items =
       [SkippedNotHttp, Failed (KeyError ''summary''), Failed (KeyError ''summary'')]"
    by (simp add: demo_items_def process_item_http startswith_def)
       (simp add: process_item_def dict_item_def startswith_def)
  have c: "fst (process_items demo_services demo_items ([], empty_trace)) = []"
    by (rule process_items_processed)
  have d: "fst (analyze_fetched demo_services ''Tesla'' (Inr demo_items) empty_trace) =
       Inl (HTTPException 500 ''Internal server error'')"
    by (rule analyze_fetched_500)
  from a a' b c d show ?thesis by blast
qed

text \<open>
  C4. When the request of the scraper raises, the scraper returns the record with title
  Error and the content \<open>Error scraping article: ...\<close>, which is not empty and passes the
  check of line 34. The claim goes on: the record passes through as a processed article.
  It does not: the record has no key \<open>summary\<close>, line 39 raises KeyError, and the
  reference is logged and skipped.
\<close>

theorem scrape_error_not_processed:
  "scrape_article_content (\<lambda>u. Inl e) url =
     [''title'' \<mapsto> ''Error'', ''content'' \<mapsto> ''Error scraping article: '' @ str_of e]
   \<and> process_item (sv\<lparr>requests_get := (\<lambda>u. Inl e)\<rparr>) [''url'' \<mapsto> JStr (''http'' @ rest)] tr =
       (Failed (KeyError ''summary''), tr\<lparr>scraped := scraped tr @ [''http'' @ rest]\<rparr>)
   \<and> fst (process_items (sv\<lparr>requests_get := (\<lambda>u. Inl e)\<rparr>)
            [[''url'' \<mapsto> JStr (''http'' @ rest)]] ([], tr)) = []"
  by (simp add: scrape_article_content_def process_item_http startswith_def)

text \<open>
  C5. The body of a successful response holds the audio path under \<open>tts_path\<close>; the
  frontend reads \<open>data['tts_url']\<close>. On every successful body the lookup of the frontend
  raises KeyError.
\<close>

theorem audio_url_key_error:
  "success_body company processed_articles tts_path ''tts_path'' = Some (RStr tts_path)
   \<and> audio_url api_base (success_body company processed_articles tts_path) =
       Inl (KeyError ''tts_url'')"
  by (simp add: audio_url_def success_body_def dict_item_def)

text \<open>
  C8. A reference whose URL does not start with \<open>http\<close> is skipped with the trace
  unchanged: the scraper is not called on it. Over the whole loop, every URL handed to the
  scraper starts with \<open>http\<close> and is the URL of one of the references.
\<close>

theorem non_http_never_scraped:
  "(item ''url'' = Some (JStr url) \<and> \<not> startswith url ''http'' \<longrightarrow>
       process_item sv item tr = (SkippedNotHttp, tr))
   \<and> (\<forall>u \<in> set (scraped (snd (process_items sv items (ps, tr)))) - set (scraped tr).
         startswith u ''http''
         \<and> (\<exists>item \<in> set items. item ''url'' = Some (JStr u)))"
proof
  show "item ''url'' = Some (JStr url) \<and> \<not> startswith url ''http'' \<longrightarrow>
       process_item sv item tr = (SkippedNotHttp, tr)"
    by (simp add: process_item_def dict_item_def)
  show "\<forall>u \<in> set (scraped (snd (process_items sv items (ps, tr)))) - set (scraped tr).
         startswith u ''http'' \<and> (\<exists>item \<in> set items. item ''url'' = Some (JStr u))"
    using process_items_scraped [of sv items ps tr] by auto
qed

theorem non_http_never_scraped_witness:
  "scraped (snd (process_items demo_services demo_items ([], empty_trace))) =
     [''https://news.example/blank'', ''https://news.example/tesla'']
   \<and> process_item demo_services (hd demo_items) empty_trace = (SkippedNotHttp, empty_trace)
   \<and> ''ftp://files.example/tesla''
       \<notin> set (scraped (snd (process_items demo_services demo_items ([], empty_trace))))"
  using non_http_never_scraped
    [of "hd demo_items" "''ftp://files.example/tesla''" demo_services empty_trace
        demo_items "[]"]
  by (simp add: demo_items_def process_item_http startswith_def empty_trace_def)

text \<open>
  C9. For every URL and every behaviour of the web, \<open>scrape_article_content\<close> returns a
  record (no exception leaves it) with the keys \<open>title\<close> and \<open>content\<close>, and the content is
  not empty. So no reference takes the branch of line 35 that skips an empty content.
\<close>

theorem scrape_content_never_empty:
  "(\<exists>t c. scrape_article_content get url = [''title'' \<mapsto> t, ''content'' \<mapsto> c] \<and> c \<noteq> [])
   \<and> fst (process_item sv item tr) \<noteq> SkippedEmptyContent"
  using scrape_article_content_shape [of get url] process_item_cases [of sv item tr]
  by auto

subsection \<open>Sentiment and topics\<close>

text \<open>
  C6. The sentiment returned by \<open>analyze_sentiment\<close> is one of Negative, Neutral and
  Positive, for every text and every classifier. Whenever the classifier returns a result
  with a label, \<open>analyze_sentiment\<close> returns such a value: Negative for LABEL\_0, Neutral
  for LABEL\_1, Positive for LABEL\_2, and Neutral for any other label. (When the
  classifier raises or returns no labelled result, the function raises RuntimeError and
  returns no value.)
\<close>

theorem analyze_sentiment_range:
  "(\<forall>s. analyze_sentiment clf text = Inr s \<longrightarrow>
        s \<in> {''Negative'', ''Neutral'', ''Positive''})
   \<and> (\<forall>result rest l.
        clf (take 512 text) = Inr (result # rest) \<and> result ''label'' = Some l \<longrightarrow>
          (\<exists>s \<in> {''Negative'', ''Neutral'', ''Positive''}.
              analyze_sentiment clf text = Inr s)
        \<and> (l = ''LABEL_0'' \<longrightarrow> analyze_sentiment clf text = Inr ''Negative'')
        \<and> (l = ''LABEL_1'' \<longrightarrow> analyze_sentiment clf text = Inr ''Neutral'')
        \<and> (l = ''LABEL_2'' \<longrightarrow> analyze_sentiment clf text = Inr ''Positive'')
        \<and> (l \<notin> {''LABEL_0'', ''LABEL_1'', ''LABEL_2''} \<longrightarrow>
              analyze_sentiment clf text = Inr ''Neutral''))"
proof (intro conjI allI impI)
  fix s
  assume "analyze_sentiment clf text = Inr s"
  then obtain l where "s = dict_get label_map l ''Neutral''"
    by (auto simp: analyze_sentiment_def split: sum.splits list.splits)
  then show "s \<in> {''Negative'', ''Neutral'', ''Positive''}"
    using dict_get_label_map_range by simp
next
  fix result rest l
  assume h: "clf (take 512 text) = Inr (result # rest) \<and> result ''label'' = Some l"
  then have eq: "analyze_sentiment clf text = Inr (dict_get label_map l ''Neutral'')"
    by (simp add: analyze_sentiment_def dict_item_def)
  show "\<exists>s \<in> {''Negative'', ''Neutral'', ''Positive''}. analyze_sentiment clf text = Inr s"
    using eq dict_get_label_map_range [of l] by blast
  { assume "l = ''LABEL_0''"
    then show "analyze_sentiment clf text = Inr ''Negative''"
      using eq by (simp add: dict_get_def label_map_def) }
  { assume "l = ''LABEL_1''"
    then show "analyze_sentiment clf text = Inr ''Neutral''"
      using eq by (simp add: dict_get_def label_map_def) }
  { assume "l = ''LABEL_2''"
    then show "analyze_sentiment clf text = Inr ''Positive''"
      using eq by (simp add: dict_get_def label_map_def) }
  { assume "l \<notin> {''LABEL_0'', ''LABEL_1'', ''LABEL_2''}"
    then show "analyze_sentiment clf text = Inr ''Neutral''"
      using eq dict_get_label_map_unknown by simp }
qed

theorem analyze_sentiment_range_witness:
  "analyze_sentiment (\<lambda>t. Inr [[''label'' \<mapsto> ''LABEL_7'', ''score'' \<mapsto> ''0.61'']])
       ''Shares fell sharply''
     = Inr ''Neutral''
   \<and> analyze_sentiment (\<lambda>t. Inr [[''label'' \<mapsto> ''LABEL_7'', ''score'' \<mapsto> ''0.61'']])
       ''Shares fell sharply''
     \<in> Inr ` {''Negative'', ''Neutral'', ''Positive''}"
  using analyze_sentiment_range
    [of "\<lambda>t. Inr [[''label'' \<mapsto> ''LABEL_7'', ''score'' \<mapsto> ''0.61'']]" "''Shares fell sharply''"]
  by simp

text \<open>
  C10. Two texts that agree on their first 512 characters get the same result of
  \<open>analyze_sentiment\<close>, the classifier being one fixed function.
\<close>

theorem analyze_sentiment_prefix:
  "take 512 text1 = take 512 text2 \<Longrightarrow>
     analyze_sentiment clf text1 = analyze_sentiment clf text2"
  by (simp add: analyze_sentiment_def)

theorem analyze_sentiment_prefix_witness:
  "take 512 (replicate 512 CHR ''a'' @ '' gains'') = take 512 (replicate 512 CHR ''a'' @ '' losses'')
   \<and> replicate 512 CHR ''a'' @ '' gains'' \<noteq> replicate 512 CHR ''a'' @ '' losses''
   \<and> analyze_sentiment demo_classifier (replicate 512 CHR ''a'' @ '' gains'')
     = analyze_sentiment demo_classifier (replicate 512 CHR ''a'' @ '' losses'')"
proof -
  have h: "take 512 (replicate 512 CHR ''a'' @ '' gains'')
             = take 512 (replicate 512 CHR ''a'' @ '' losses'')"
    by simp
  show ?thesis
    using h analyze_sentiment_prefix [OF h] by simp
qed

text \<open>
  C7. With the default bound of 5 topics, and whatever order the set is listed in:
  when entity recognition returns, \<open>extract_key_topics\<close> returns a list of at most 5
  strings without duplicates, each the text of a recognised entity labelled ORG, PRODUCT,
  GPE or NORP. (When entity recognition raises, so does the function.)
\<close>

theorem extract_key_topics_bounded_distinct:
  assumes "iteration_order order"
  shows "case ner text of
           Inl e \<Rightarrow> extract_key_topics ner order text 5 = Inl e
         | Inr ents \<Rightarrow>
             (\<exists>tops. extract_key_topics ner order text 5 = Inr tops
                \<and> length tops \<le> 5 \<and> distinct tops
                \<and> (\<forall>t \<in> set tops. \<exists>ent \<in> set ents. ent_text ent = t
                      \<and> ent_label ent \<in> {''ORG'', ''PRODUCT'', ''GPE'', ''NORP''}))"
proof (cases "ner text")
  case (Inl e)
  then show ?thesis by (simp add: extract_key_topics_def)
next
  case (Inr ents)
  let ?es = "map ent_text
           (filter (\<lambda>ent. ent_label ent \<in> set [''ORG'', ''PRODUCT'', ''GPE'', ''NORP'']) ents)"
  let ?tops = "slice_to (order (remdups ?es)) 5"
  have run: "extract_key_topics ner order text 5 = Inr ?tops"
    using Inr by (simp add: extract_key_topics_def)
  have d: "distinct (order (remdups ?es))" and s: "set (order (remdups ?es)) = set ?es"
    using assms by (simp_all add: iteration_order_def)
  have len: "length ?tops \<le> 5" using slice_to_length [of 5] by simp
  have dis: "distinct ?tops" using d by (rule slice_to_distinct)
  have "set ?tops \<subseteq> set ?es" using s slice_to_subset by metis
  then have ents: "\<forall>t \<in> set ?tops. \<exists>ent \<in> set ents. ent_text ent = t
               \<and> ent_label ent \<in> {''ORG'', ''PRODUCT'', ''GPE'', ''NORP''}"
    by auto
  show ?thesis using Inr run len dis ents by simp
qed

theorem extract_key_topics_bounded_distinct_witness:
  "iteration_order rev
   \<and> extract_key_topics demo_nlp rev ''Tesla opens in Germany on Monday, Tesla says'' 5
       = Inr [''Tesla'', ''Germany'']"
proof -
  have h: "iteration_order rev" by (simp add: iteration_order_def)
  show ?thesis
    using h extract_key_topics_bounded_distinct
      [OF h, of demo_nlp "''Tesla opens in Germany on Monday, Tesla says''"]
    by (simp add: demo_nlp_def extract_key_topics_def slice_to_def)
qed

end
